theory Spec2Isabelle
  imports Complex_Main
begin

section \<open>The dashboard script \<open>date_analytics.py\<close>\<close>

text \<open>
  The script is a straight-line Streamlit page. Each block of the script is embedded as
  a function of what the block reads. Conventions of the embedding:
  \<^item> a pandas float cell is a \<open>real option\<close>: \<open>None\<close> is the null (NaN) cell.
    Arithmetic on cells is exact real arithmetic, rounding of IEEE doubles is not
    modelled, and the special values \<open>inf\<close> and \<open>-inf\<close> do not occur;
  \<^item> \<open>st.error\<close>, \<open>st.warning\<close> and \<open>st.sidebar.error\<close> calls are values of type
    \<open>notice\<close>, which keep the values interpolated into the message text;
  \<^item> \<open>st.stop()\<close> after a message is \<open>Inl (Stop n)\<close>; an exception that no
    \<open>except\<close> clause catches is \<open>Inl (Raise e)\<close>.
\<close>

subsection \<open>Messages, exceptions and halting\<close>

datatype py_exn =
    FetchError string      \<comment> \<open>raised by \<open>requests.get\<close> or \<open>response.json\<close>, with its text\<close>
  | TypeError
  | AttributeError
  | ZeroDivisionError
  | ValueError
  | IndexError
  | KeyError

datatype notice =
    MissingColumns "string list"   \<comment> \<open>line 33, \<open>st.error\<close>, holds \<open>missing_cols\<close>\<close>
  | LoadError string               \<comment> \<open>line 37, \<open>st.error\<close>, holds the text of \<open>e\<close>\<close>
  | NullValues                     \<comment> \<open>line 46, \<open>st.warning\<close>\<close>
  | Unrecognized "string list"     \<comment> \<open>line 89, \<open>st.warning\<close>, holds \<open>invalid_countries\<close>\<close>
  | ExchangeRateError py_exn       \<comment> \<open>line 273, \<open>st.sidebar.error\<close>, holds \<open>e\<close>\<close>

datatype fault = Stop notice | Raise py_exn

subsection \<open>The table\<close>

text \<open>
  One line of \<open>imoveis.csv\<close>, projected on the four columns the script reads. The two
  growth cells may be null.
\<close>

record row =
  Country :: string
  Year :: int
  GDP :: "real option"
  Pop :: "real option"

text \<open>
  What \<open>pd.read_csv\<close> returns: the header labels as they stand in the file and the
  lines. The lines are read only after the header check has passed.
\<close>

record frame =
  columns :: "string list"
  rows :: "row list"

subsection \<open>Trimming labels\<close>

text \<open>
  \<open>str.strip()\<close> without argument removes leading and trailing characters for which
  \<open>str.isspace\<close> holds. The file is decoded as Latin-1, so a character is one of the
  code points 0 to 255; the whitespace ones are listed.
\<close>

definition py_isspace :: "char \<Rightarrow> bool" where
  "py_isspace c = ((of_char c :: nat) \<in> {9, 10, 11, 12, 13, 28, 29, 30, 31, 32, 133, 160})"

definition strip :: "string \<Rightarrow> string" where
  "strip s = rev (dropWhile py_isspace (rev (dropWhile py_isspace s)))"

subsection \<open>Loading the data (lines 25 to 38)\<close>

definition target_columns :: "string list" where
  "target_columns = [''Country'', ''Year'', ''GDP Growth (%)'', ''Population Growth (%)'']"

definition missing_cols :: "string list \<Rightarrow> string list" where
  "missing_cols cols = filter (\<lambda>col. col \<notin> set cols) target_columns"

text \<open>
  The argument is the outcome of \<open>pd.read_csv\<close>: the text of the exception it raised,
  or the frame. \<open>st.stop()\<close> raises Streamlit's \<open>StopException\<close>, which derives from
  \<open>BaseException\<close>, so the \<open>except Exception\<close> clause of line 36 does not catch the
  stop of line 34.
\<close>

definition load_data :: "string + frame \<Rightarrow> fault + frame" where
  "load_data csv =
     (case csv of
        Inl e \<Rightarrow> Inl (Stop (LoadError e))
      | Inr imoveis \<Rightarrow>
          (let imoveis = imoveis\<lparr>columns := map strip (columns imoveis)\<rparr>
           in if \<not> list_all (\<lambda>col. col \<in> set (columns imoveis)) target_columns
              then Inl (Stop (MissingColumns (missing_cols (columns imoveis))))
              else Inr imoveis))"

subsection \<open>The most recent year and the null check (lines 40 to 47)\<close>

text \<open>
  \<open>imoveis["Year"].max()\<close>; the maximum of an empty column is NaN, here \<open>None\<close>, and
  no line compares equal to it.
\<close>

definition ano_mais_recente :: "row list \<Rightarrow> int option" where
  "ano_mais_recente imoveis =
     (case map Year imoveis of [] \<Rightarrow> None | y # ys \<Rightarrow> Some (fold max ys y))"

definition dados_recentes :: "row list \<Rightarrow> row list" where
  "dados_recentes imoveis =
     filter (\<lambda>r. Some (Year r) = ano_mais_recente imoveis) imoveis"

definition isnull_any :: "row list \<Rightarrow> bool" where
  "isnull_any d = list_ex (\<lambda>r. GDP r = None \<or> Pop r = None) d"

subsection \<open>The quality index (lines 49 to 54)\<close>

definition pesos :: "string \<rightharpoonup> real" where
  "pesos = [''GDP Growth (%)'' \<mapsto> 0.7, ''Population Growth (%)'' \<mapsto> 0.3]"

text \<open>Column arithmetic is cell by cell, and a null operand gives a null cell.\<close>

definition cell_mul :: "real option \<Rightarrow> real \<Rightarrow> real option" where
  "cell_mul c w = (case c of None \<Rightarrow> None | Some x \<Rightarrow> Some (x * w))"

definition cell_add :: "real option \<Rightarrow> real option \<Rightarrow> real option" where
  "cell_add c c' =
     (case c of None \<Rightarrow> None
      | Some x \<Rightarrow> (case c' of None \<Rightarrow> None | Some y \<Rightarrow> Some (x + y)))"

record scored = row +
  Score :: "real option"

definition add_score :: "row \<Rightarrow> scored" where
  "add_score r =
     \<lparr>Country = Country r, Year = Year r, GDP = GDP r, Pop = Pop r,
      Score = cell_add (cell_mul (GDP r) (the (pesos ''GDP Growth (%)'')))
                       (cell_mul (Pop r) (the (pesos ''Population Growth (%)'')))\<rparr>"

text \<open>Lines 41 to 54: the snapshot, the null check that stops the run, the scores.\<close>

definition scoring :: "row list \<Rightarrow> fault + scored list" where
  "scoring imoveis =
     (let d = dados_recentes imoveis
      in if isnull_any d then Inl (Stop NullValues) else Inr (map add_score d))"

subsection \<open>The best country (lines 56 to 59)\<close>

text \<open>
  Modelled from the spec: \<open>Series.idxmax\<close> of pandas is not in the script. The spec
  calls it a stable argmax, "the first row attaining the maximum Score in iteration
  order". It skips null cells and returns the label of the first occurrence of
  the maximum; it raises on a column with no value to compare. The snapshot keeps the
  unique labels of \<open>imoveis\<close>, so a label is written as the position in the snapshot.
  The scan keeps the best position and value seen so far and replaces them only by a
  strictly greater value.
\<close>

fun idxmax_from :: "nat \<Rightarrow> (nat \<times> real) option \<Rightarrow> real option list \<Rightarrow> (nat \<times> real) option" where
  "idxmax_from i best [] = best"
| "idxmax_from i best (None # cs) = idxmax_from (Suc i) best cs"
| "idxmax_from i None (Some v # cs) = idxmax_from (Suc i) (Some (i, v)) cs"
| "idxmax_from i (Some (b, bv)) (Some v # cs) =
     idxmax_from (Suc i) (if bv < v then Some (i, v) else Some (b, bv)) cs"

definition idxmax :: "real option list \<Rightarrow> py_exn + nat" where
  "idxmax cs = (case idxmax_from 0 None cs of None \<Rightarrow> Inl ValueError | Some (i, v) \<Rightarrow> Inr i)"

text \<open>
  \<open>pais_ideal\<close> is read at the position \<open>idxmax\<close> returns. \<open>pib_pais\<close> and
  \<open>pop_pais\<close> are read through the mask \<open>dados_recentes["Country"] == pais_ideal\<close>:
  \<open>.values[0]\<close> is the cell of the first line that carries the label.
\<close>

record analise =
  pais_ideal :: string
  pib_pais :: "real option"
  pop_pais :: "real option"

definition values0 :: "'a list \<Rightarrow> py_exn + 'a" where
  "values0 vs = (case vs of [] \<Rightarrow> Inl IndexError | v # _ \<Rightarrow> Inr v)"

definition ranker :: "scored list \<Rightarrow> fault + analise" where
  "ranker d =
     (case idxmax (map Score d) of
        Inl e \<Rightarrow> Inl (Raise e)
      | Inr i \<Rightarrow>
          (let pais = Country (d ! i) in
           case values0 (map GDP (filter (\<lambda>r. Country r = pais) d)) of
             Inl e \<Rightarrow> Inl (Raise e)
           | Inr pib \<Rightarrow>
               (case values0 (map Pop (filter (\<lambda>r. Country r = pais) d)) of
                  Inl e \<Rightarrow> Inl (Raise e)
                | Inr pop \<Rightarrow> Inr \<lparr>pais_ideal = pais, pib_pais = pib, pop_pais = pop\<rparr>)))"

subsection \<open>Validation of the country names (lines 80 to 89)\<close>

text \<open>
  \<open>pycountry.countries.get\<close> is a library lookup in a fixed table of countries; it is
  the parameter \<open>get\<close>, which returns the entry found or \<open>None\<close>. An entry is truthy.
\<close>

definition invalid_countries :: "(string \<Rightarrow> 'c option) \<Rightarrow> scored list \<Rightarrow> string list" where
  "invalid_countries get d =
     filter (\<lambda>country. get country = None) (map (\<lambda>r. strip (Country r)) d)"

definition validate :: "(string \<Rightarrow> 'c option) \<Rightarrow> scored list \<Rightarrow> notice list" where
  "validate get d =
     (let invalid = invalid_countries get d
      in if invalid \<noteq> [] then [Unrecognized invalid] else [])"

subsection \<open>The page down to the validation (lines 24 to 89)\<close>

record report =
  texto :: analise
  snapshot :: "scored list"
  warnings :: "notice list"

definition page :: "(string \<Rightarrow> 'c option) \<Rightarrow> string + frame \<Rightarrow> fault + report" where
  "page get csv =
     (case load_data csv of
        Inl f \<Rightarrow> Inl f
      | Inr imoveis \<Rightarrow>
          (case scoring (rows imoveis) of
             Inl f \<Rightarrow> Inl f
           | Inr d \<Rightarrow>
               (case ranker d of
                  Inl f \<Rightarrow> Inl f
                | Inr a \<Rightarrow> Inr \<lparr>texto = a, snapshot = d, warnings = validate get d\<rparr>)))"

subsection \<open>The forecast (lines 152 to 164)\<close>

text \<open>
  \<open>train_test_split(X, y, test_size=0.2, random_state=0)\<close> is library code: which
  lines its seeded shuffle keeps for training is not in the script. It is the parameter
  \<open>split\<close>, which returns the training and the test lines or raises.
\<close>

type_synonym splitter = "row list \<Rightarrow> py_exn + (row list \<times> row list)"

definition mean :: "real list \<Rightarrow> real" where
  "mean xs = sum_list xs / real (length xs)"

text \<open>
  Modelled from the spec: \<open>LinearRegression().fit\<close> of scikit-learn is not in the
  script. The spec calls it "an ordinary least-squares line of GDP Growth % on Year".
  With one feature and an intercept that is the closed form below: the slope is the
  centred cross product over the centred square sum, and the intercept makes the line
  pass through the means. When every training year is the same the least-squares
  problem is rank deficient and the minimum-norm solution has slope 0. The fit rejects
  an empty training set and a null target.
\<close>

record linear_model =
  coef :: real
  intercept :: real

definition fit :: "real list \<Rightarrow> real option list \<Rightarrow> py_exn + linear_model" where
  "fit X y =
     (case those y of
        None \<Rightarrow> Inl ValueError
      | Some ys \<Rightarrow>
          if X = [] then Inl ValueError
          else
            (let mx = mean X; my = mean ys;
                 sxy = sum_list (map2 (\<lambda>x v. (x - mx) * (v - my)) X ys);
                 sxx = sum_list (map (\<lambda>x. (x - mx) * (x - mx)) X);
                 slope = (if sxx = 0 then 0 else sxy / sxx)
             in Inr \<lparr>coef = slope, intercept = my - slope * mx\<rparr>))"

text \<open>
  Modelled from the spec: \<open>model.predict\<close> of scikit-learn is not in the script; it
  evaluates the fitted line at the given year.
\<close>

definition predict :: "linear_model \<Rightarrow> real \<Rightarrow> real" where
  "predict m x = intercept m + coef m * x"

definition future_years :: "int list" where
  "future_years = [2025..2030]"

definition forecast :: "splitter \<Rightarrow> row list \<Rightarrow> fault + (int \<times> real) list" where
  "forecast split imoveis =
     (case split imoveis of
        Inl e \<Rightarrow> Inl (Raise e)
      | Inr (train, test) \<Rightarrow>
          (case fit (map (\<lambda>r. real_of_int (Year r)) train) (map GDP train) of
             Inl e \<Rightarrow> Inl (Raise e)
           | Inr model \<Rightarrow>
               Inr (map (\<lambda>year. (year, predict model (real_of_int year))) future_years)))"

subsection \<open>The currency converter (lines 252 to 289)\<close>

text \<open>
  The value \<open>response.json()\<close> returns: any JSON document, as Python objects. Numbers
  are exact reals, a dictionary is a finite map on its string keys.
\<close>

datatype pyval =
    PNone
  | PBool bool
  | PNum real
  | PStr string
  | PList "pyval list"
  | PDict "string \<Rightarrow> pyval option"

definition truthy :: "pyval \<Rightarrow> bool" where
  "truthy v =
     (case v of
        PNone \<Rightarrow> False
      | PBool b \<Rightarrow> b
      | PNum x \<Rightarrow> x \<noteq> 0
      | PStr s \<Rightarrow> s \<noteq> []
      | PList l \<Rightarrow> l \<noteq> []
      | PDict m \<Rightarrow> m \<noteq> Map.empty)"

text \<open>\<open>t in s\<close> on strings: \<open>t\<close> occurs in \<open>s\<close> as a contiguous block.\<close>

definition str_contains :: "string \<Rightarrow> string \<Rightarrow> bool" where
  "str_contains s t = list_ex (\<lambda>i. take (length t) (drop i s) = t) [0..<Suc (length s)]"

text \<open>
  \<open>"rates" in data\<close>: a key test on a dictionary, an element test on a list, a
  substring test on a string, a \<open>TypeError\<close> on the other objects.
\<close>

definition rates_in :: "pyval \<Rightarrow> py_exn + bool" where
  "rates_in data =
     (case data of
        PDict m \<Rightarrow> Inr (m ''rates'' \<noteq> None)
      | PList l \<Rightarrow> Inr (PStr ''rates'' \<in> set l)
      | PStr s \<Rightarrow> Inr (str_contains s ''rates'')
      | _ \<Rightarrow> Inl TypeError)"

text \<open>
  \<open>data["rates"]\<close>, evaluated once \<open>"rates" in data\<close> holds: the value under the key
  of a dictionary; a list and a string take integer subscripts only.
\<close>

definition getitem_rates :: "pyval \<Rightarrow> py_exn + pyval" where
  "getitem_rates data =
     (case data of
        PDict m \<Rightarrow> (case m ''rates'' of None \<Rightarrow> Inl KeyError | Some v \<Rightarrow> Inr v)
      | _ \<Rightarrow> Inl TypeError)"

text \<open>\<open>rates.get(moeda, None)\<close>: only a dictionary has the method.\<close>

definition dict_get :: "pyval \<Rightarrow> string \<Rightarrow> py_exn + pyval" where
  "dict_get rates moeda =
     (case rates of
        PDict m \<Rightarrow> Inr (case m moeda of None \<Rightarrow> PNone | Some v \<Rightarrow> v)
      | _ \<Rightarrow> Inl AttributeError)"

text \<open>
  \<open>a / b\<close>: defined on numbers, with \<open>True\<close> and \<open>False\<close> counting as 1 and 0; a
  zero divisor raises, and so does any other operand.
\<close>

definition number :: "pyval \<Rightarrow> real option" where
  "number v = (case v of PNum x \<Rightarrow> Some x | PBool b \<Rightarrow> Some (if b then 1 else 0) | _ \<Rightarrow> None)"

definition truediv :: "pyval \<Rightarrow> pyval \<Rightarrow> py_exn + real" where
  "truediv a b =
     (case number a of
        None \<Rightarrow> Inl TypeError
      | Some x \<Rightarrow>
          (case number b of
             None \<Rightarrow> Inl TypeError
           | Some y \<Rightarrow> if y = 0 then Inl ZeroDivisionError else Inr (x / y)))"

text \<open>The statements inside \<open>try\<close>, from line 260 on, for a decoded body \<open>data\<close>.\<close>

definition try_rate :: "pyval \<Rightarrow> string \<Rightarrow> string \<Rightarrow> py_exn + real" where
  "try_rate data moeda_origem moeda_destino =
     (case rates_in data of
        Inl e \<Rightarrow> Inl e
      | Inr present \<Rightarrow>
          if \<not> present then Inr 1
          else
            (case getitem_rates data of
               Inl e \<Rightarrow> Inl e
             | Inr rates \<Rightarrow>
                 (case dict_get rates moeda_origem of
                    Inl e \<Rightarrow> Inl e
                  | Inr taxa_origem \<Rightarrow>
                      (case dict_get rates moeda_destino of
                         Inl e \<Rightarrow> Inl e
                       | Inr taxa_destino \<Rightarrow>
                           if truthy taxa_origem \<and> truthy taxa_destino
                           then truediv taxa_destino taxa_origem
                           else Inr 1))))"

text \<open>
  The argument \<open>response\<close> is the outcome of lines 257 and 258: the text of the
  exception \<open>requests.get\<close> or \<open>response.json\<close> raised, or the decoded body. The result
  is the returned rate and the sidebar messages shown on the way.
\<close>

definition get_exchange_rate :: "string + pyval \<Rightarrow> string \<Rightarrow> string \<Rightarrow> real \<times> notice list" where
  "get_exchange_rate response moeda_origem moeda_destino =
     (case response of
        Inl e \<Rightarrow> (1, [ExchangeRateError (FetchError e)])
      | Inr data \<Rightarrow>
          (case try_rate data moeda_origem moeda_destino of
             Inl e \<Rightarrow> (1, [ExchangeRateError e])
           | Inr taxa \<Rightarrow> (taxa, [])))"

definition moedas :: "string list" where
  "moedas = [''BRL'', ''USD'', ''EUR'']"

text \<open>
  Lines 286 to 289, the button pressed: the converted value that is written to the
  sidebar (its rendering with two decimals is not modelled) and the messages.
\<close>

definition converter :: "string + pyval \<Rightarrow> string \<Rightarrow> string \<Rightarrow> real \<Rightarrow> real \<times> notice list" where
  "converter response moeda_origem moeda_destino valor =
     (case get_exchange_rate response moeda_origem moeda_destino of
        (taxa, shown) \<Rightarrow> (valor * taxa, shown))"

subsection \<open>Sample inputs\<close>

definition sample_rows :: "row list" where
  "sample_rows =
     [\<lparr>Country = ''Brazil'', Year = 2023, GDP = Some 9, Pop = None\<rparr>,
      \<lparr>Country = ''Chile'', Year = 2024, GDP = Some 2, Pop = Some 1\<rparr>,
      \<lparr>Country = ''Peru'', Year = 2024, GDP = Some 3, Pop = Some 4\<rparr>]"

definition null_rows :: "row list" where
  "null_rows =
     [\<lparr>Country = ''Brazil'', Year = 2024, GDP = Some 9, Pop = None\<rparr>,
      \<lparr>Country = ''Chile'', Year = 2024, GDP = Some 2, Pop = Some 1\<rparr>]"

definition dup_table :: "row list" where
  "dup_table =
     [\<lparr>Country = ''Brazil'', Year = 2024, GDP = Some 1, Pop = Some 1\<rparr>,
      \<lparr>Country = ''Brazil'', Year = 2024, GDP = Some 9, Pop = Some 9\<rparr>]"

definition dup_rows :: "scored list" where
  "dup_rows = map add_score dup_table"

definition two_rows :: "scored list" where
  "two_rows = map add_score
     [\<lparr>Country = ''Chile'', Year = 2024, GDP = Some 5, Pop = Some 5\<rparr>,
      \<lparr>Country = ''Peru'', Year = 2024, GDP = Some 7, Pop = Some 7\<rparr>]"

definition sample_get :: "string \<Rightarrow> nat option" where
  "sample_get name = map_of [(''Brazil'', 76), (''Chile'', 152), (''Peru'', 604)] name"

definition misspelt_rows :: "row list" where
  "misspelt_rows =
     [\<lparr>Country = ''Brasil'', Year = 2024, GDP = Some 1, Pop = Some 1\<rparr>,
      \<lparr>Country = '' Chile '', Year = 2024, GDP = Some 2, Pop = Some 2\<rparr>,
      \<lparr>Country = ''Brasil'', Year = 2024, GDP = Some 3, Pop = Some 3\<rparr>]"

definition sample_rates :: "string \<Rightarrow> pyval option" where
  "sample_rates = [''USD'' \<mapsto> PNum 1, ''EUR'' \<mapsto> PNum 0.9, ''BRL'' \<mapsto> PNum 5]"

definition sample_body :: "string \<Rightarrow> pyval option" where
  "sample_body = [''base'' \<mapsto> PStr ''USD'', ''rates'' \<mapsto> PDict sample_rates]"

definition no_rates_body :: "string \<Rightarrow> pyval option" where
  "no_rates_body = [''result'' \<mapsto> PStr ''error'']"

definition zero_body :: "string \<Rightarrow> pyval option" where
  "zero_body = [''rates'' \<mapsto> PDict [''USD'' \<mapsto> PNum 1, ''BRL'' \<mapsto> PNum 0]]"

definition linear_rows :: "row list" where
  "linear_rows =
     [\<lparr>Country = ''Chile'', Year = 2018, GDP = Some 36, Pop = Some 1\<rparr>,
      \<lparr>Country = ''Chile'', Year = 2019, GDP = Some 38, Pop = Some 1\<rparr>,
      \<lparr>Country = ''Chile'', Year = 2020, GDP = Some 40, Pop = Some 1\<rparr>,
      \<lparr>Country = ''Chile'', Year = 2021, GDP = Some 42, Pop = Some 1\<rparr>,
      \<lparr>Country = ''Chile'', Year = 2022, GDP = Some 44, Pop = Some 1\<rparr>]"

definition sample_split :: splitter where
  "sample_split imoveis = Inr (take 4 imoveis, drop 4 imoveis)"

section \<open>Properties\<close>

subsection \<open>Loading\<close>

lemma missing_cols_set: "set (missing_cols cols) = set target_columns - set cols"
  by (auto simp: missing_cols_def)

lemma missing_cols_empty_iff:
  "missing_cols cols = [] \<longleftrightarrow> list_all (\<lambda>col. col \<in> set cols) target_columns"
  by (simp add: missing_cols_def filter_empty_conv list_all_iff)

text \<open>
  Claim C4. A table that, once its column labels are trimmed, lacks one or more of the
  four required columns stops the load step with the error message of line 33, and the
  list the message shows holds exactly the required names that are absent, each once.
  A table that has the four columns is loaded, with its labels trimmed, and the script
  goes on.
\<close>

theorem load_data_columns:
  "(set target_columns \<subseteq> set (map strip (columns f)) \<longrightarrow>
      load_data (Inr f) = Inr (f\<lparr>columns := map strip (columns f)\<rparr>)) \<and>
   (\<not> set target_columns \<subseteq> set (map strip (columns f)) \<longrightarrow>
      load_data (Inr f) = Inl (Stop (MissingColumns (missing_cols (map strip (columns f))))) \<and>
      missing_cols (map strip (columns f)) \<noteq> [] \<and>
      distinct (missing_cols (map strip (columns f))) \<and>
      set (missing_cols (map strip (columns f))) =
        set target_columns - set (map strip (columns f)))"
proof -
  let ?cols = "map strip (columns f)"
  have all: "list_all (\<lambda>col. col \<in> set ?cols) target_columns \<longleftrightarrow> set target_columns \<subseteq> set ?cols"
    by (auto simp: list_all_iff)
  have d: "distinct (missing_cols ?cols)"
    by (simp add: missing_cols_def target_columns_def)
  show ?thesis
    using all d missing_cols_set [of ?cols] missing_cols_empty_iff [of ?cols]
    by (simp add: load_data_def Let_def)
qed

theorem load_data_columns_witness:
  "load_data (Inr \<lparr>columns = ['' Country'', ''Year  '', ''GDP Growth (%)'', ''Population Growth (%) ''],
                    rows = []\<rparr>) =
     Inr \<lparr>columns = target_columns, rows = []\<rparr> \<and>
   load_data (Inr \<lparr>columns = [''Country '', ''Population Growth (%)'', ''Area''], rows = []\<rparr>) =
     Inl (Stop (MissingColumns [''Year'', ''GDP Growth (%)'']))"
  using load_data_columns [of "\<lparr>columns = ['' Country'', ''Year  '', ''GDP Growth (%)'', ''Population Growth (%) ''], rows = []\<rparr>"]
    load_data_columns [of "\<lparr>columns = [''Country '', ''Population Growth (%)'', ''Area''], rows = []\<rparr>"]
  by (simp add: target_columns_def missing_cols_def strip_def py_isspace_def)

subsection \<open>The snapshot and the scores\<close>

lemma ano_mais_recente_Max:
  "imoveis \<noteq> [] \<Longrightarrow> ano_mais_recente imoveis = Some (Max (Year ` set imoveis))"
proof -
  assume "imoveis \<noteq> []"
  then obtain r rs where imoveis: "imoveis = r # rs" by (cases imoveis) auto
  have "fold max (map Year rs) (Year r) = Max (set (Year r # map Year rs))"
    by (rule Max.set_eq_fold [symmetric])
  then show ?thesis by (simp add: ano_mais_recente_def imoveis)
qed

lemma set_dados_recentes:
  "set (dados_recentes imoveis) = {r \<in> set imoveis. \<forall>r' \<in> set imoveis. Year r' \<le> Year r}"
proof (cases "imoveis = []")
  case True
  then show ?thesis by (simp add: dados_recentes_def)
next
  case False
  have fin: "finite (Year ` set imoveis)" by simp
  have "Year r = Max (Year ` set imoveis) \<longleftrightarrow> (\<forall>r' \<in> set imoveis. Year r' \<le> Year r)"
    if "r \<in> set imoveis" for r
  proof
    assume "Year r = Max (Year ` set imoveis)"
    then show "\<forall>r' \<in> set imoveis. Year r' \<le> Year r" using fin by simp
  next
    assume "\<forall>r' \<in> set imoveis. Year r' \<le> Year r"
    then show "Year r = Max (Year ` set imoveis)"
      using that fin by (intro Max_eqI [symmetric]) auto
  qed
  then show ?thesis
    using False by (auto simp: dados_recentes_def ano_mais_recente_Max)
qed

lemma pesos_gdp: "the (pesos ''GDP Growth (%)'') = 7 / 10"
  by (simp add: pesos_def)

lemma pesos_pop: "the (pesos ''Population Growth (%)'') = 3 / 10"
  by (simp add: pesos_def)

lemma Score_add_score:
  "GDP r = Some g \<Longrightarrow> Pop r = Some p \<Longrightarrow> Score (add_score r) = Some (g * 0.7 + p * 0.3)"
  by (simp add: add_score_def cell_add_def cell_mul_def pesos_gdp pesos_pop)

lemma isnull_any_iff:
  "isnull_any d \<longleftrightarrow> (\<exists>r \<in> set d. GDP r = None \<or> Pop r = None)"
  by (simp add: isnull_any_def list_ex_iff)

lemma dados_recentes_sample:
  "dados_recentes sample_rows =
     [\<lparr>Country = ''Chile'', Year = 2024, GDP = Some 2, Pop = Some 1\<rparr>,
      \<lparr>Country = ''Peru'', Year = 2024, GDP = Some 3, Pop = Some 4\<rparr>]"
  by (simp add: dados_recentes_def ano_mais_recente_def sample_rows_def)

lemma dados_recentes_null: "dados_recentes null_rows = null_rows"
  by (simp add: dados_recentes_def ano_mais_recente_def null_rows_def)

text \<open>
  Claim C1. When the scores are computed, the snapshot is the lines of the table whose
  year is the greatest year of the table, there is one scored line for each line of the
  snapshot, in the same order, and the score of each is 0.7 times its GDP growth plus
  0.3 times its population growth. Cells are exact reals, so the tolerance of the claim
  is an equality here.
\<close>

theorem score_weighted_sum:
  assumes "scoring imoveis = Inr d"
  shows "length d = length (dados_recentes imoveis) \<and>
         set (dados_recentes imoveis) =
           {r \<in> set imoveis. \<forall>r' \<in> set imoveis. Year r' \<le> Year r} \<and>
         (\<forall>i < length d. \<exists>g p.
            GDP (dados_recentes imoveis ! i) = Some g \<and>
            Pop (dados_recentes imoveis ! i) = Some p \<and>
            Country (d ! i) = Country (dados_recentes imoveis ! i) \<and>
            GDP (d ! i) = Some g \<and> Pop (d ! i) = Some p \<and>
            Score (d ! i) = Some (0.7 * g + 0.3 * p))"
proof -
  let ?snap = "dados_recentes imoveis"
  from assms have nonull: "\<not> isnull_any ?snap" and d: "d = map add_score ?snap"
    by (auto simp: scoring_def Let_def split: if_splits)
  have "\<exists>g p. GDP (?snap ! i) = Some g \<and> Pop (?snap ! i) = Some p \<and>
          Country (d ! i) = Country (?snap ! i) \<and>
          GDP (d ! i) = Some g \<and> Pop (d ! i) = Some p \<and>
          Score (d ! i) = Some (0.7 * g + 0.3 * p)" if "i < length d" for i
  proof -
    from that d have i: "i < length ?snap" by simp
    then have "?snap ! i \<in> set ?snap" by simp
    with nonull obtain g p where gp: "GDP (?snap ! i) = Some g" "Pop (?snap ! i) = Some p"
      by (auto simp: isnull_any_iff)
    have "Score (add_score (?snap ! i)) = Some (0.7 * g + 0.3 * p)"
      using Score_add_score [OF gp] by (simp add: mult.commute)
    with gp i d show ?thesis by (simp add: add_score_def)
  qed
  with d show ?thesis by (simp add: set_dados_recentes)
qed

theorem score_weighted_sum_witness:
  "scoring sample_rows = Inr (map add_score (dados_recentes sample_rows)) \<and>
   length (map add_score (dados_recentes sample_rows)) = 2 \<and>
   Score (map add_score (dados_recentes sample_rows) ! 0) = Some (17 / 10) \<and>
   Score (map add_score (dados_recentes sample_rows) ! 1) = Some (33 / 10)"
proof -
  have s: "scoring sample_rows = Inr (map add_score (dados_recentes sample_rows))"
    by (simp add: scoring_def Let_def dados_recentes_sample isnull_any_def)
  from score_weighted_sum [OF s]
  have all: "\<forall>i < length (map add_score (dados_recentes sample_rows)). \<exists>g p.
            GDP (dados_recentes sample_rows ! i) = Some g \<and>
            Pop (dados_recentes sample_rows ! i) = Some p \<and>
            Score (map add_score (dados_recentes sample_rows) ! i) = Some (0.7 * g + 0.3 * p)"
    by blast
  have len: "length (map add_score (dados_recentes sample_rows)) = 2"
    by (simp add: dados_recentes_sample)
  from all len have "\<exists>g p. GDP (dados_recentes sample_rows ! 0) = Some g \<and>
            Pop (dados_recentes sample_rows ! 0) = Some p \<and>
            Score (map add_score (dados_recentes sample_rows) ! 0) = Some (0.7 * g + 0.3 * p)"
    by simp
  then have s0: "Score (map add_score (dados_recentes sample_rows) ! 0) = Some (17 / 10)"
    by (auto simp: dados_recentes_sample)
  from all len have "\<exists>g p. GDP (dados_recentes sample_rows ! 1) = Some g \<and>
            Pop (dados_recentes sample_rows ! 1) = Some p \<and>
            Score (map add_score (dados_recentes sample_rows) ! 1) = Some (0.7 * g + 0.3 * p)"
    by simp
  then have s1: "Score (map add_score (dados_recentes sample_rows) ! 1) = Some (33 / 10)"
    by (auto simp: dados_recentes_sample)
  from s len s0 s1 show ?thesis by blast
qed

text \<open>
  Claim C3. Once the table is loaded, a null GDP growth or population growth cell in
  any line of the most recent year stops the run with the warning of line 46, and no
  score is computed; when no such cell is null, the scores are computed, one for each
  line of the snapshot, none of them null.
\<close>

theorem null_check_stops:
  assumes "load_data csv = Inr f"
  shows "((\<exists>r \<in> set (rows f). (\<forall>r' \<in> set (rows f). Year r' \<le> Year r) \<and>
                                (GDP r = None \<or> Pop r = None)) \<longrightarrow>
            scoring (rows f) = Inl (Stop NullValues) \<and>
            page get csv = Inl (Stop NullValues)) \<and>
         (\<not> (\<exists>r \<in> set (rows f). (\<forall>r' \<in> set (rows f). Year r' \<le> Year r) \<and>
                                  (GDP r = None \<or> Pop r = None)) \<longrightarrow>
            (\<exists>d. scoring (rows f) = Inr d \<and>
                 length d = length (dados_recentes (rows f)) \<and>
                 (\<forall>s \<in> set d. Score s \<noteq> None)))"
proof -
  let ?snap = "dados_recentes (rows f)"
  have null: "isnull_any ?snap \<longleftrightarrow>
      (\<exists>r \<in> set (rows f). (\<forall>r' \<in> set (rows f). Year r' \<le> Year r) \<and>
                           (GDP r = None \<or> Pop r = None))"
    unfolding isnull_any_iff set_dados_recentes by blast
  have stop: "scoring (rows f) = Inl (Stop NullValues) \<and> page get csv = Inl (Stop NullValues)"
    if "isnull_any ?snap"
    using that assms by (simp add: scoring_def page_def Let_def)
  have go: "\<exists>d. scoring (rows f) = Inr d \<and> length d = length ?snap \<and>
              (\<forall>s \<in> set d. Score s \<noteq> None)"
    if n: "\<not> isnull_any ?snap"
  proof -
    have "Score (add_score r) \<noteq> None" if "r \<in> set ?snap" for r
    proof -
      from that n obtain g p where "GDP r = Some g" "Pop r = Some p"
        by (auto simp: isnull_any_iff)
      then show ?thesis using Score_add_score by simp
    qed
    with n show ?thesis by (simp add: scoring_def Let_def)
  qed
  from stop go show ?thesis unfolding null by blast
qed

theorem null_check_stops_witness:
  "page sample_get (Inr \<lparr>columns = target_columns, rows = null_rows\<rparr>) = Inl (Stop NullValues) \<and>
   (\<exists>d. scoring sample_rows = Inr d \<and> length d = length (dados_recentes sample_rows) \<and>
        (\<forall>s \<in> set d. Score s \<noteq> None))"
proof -
  have l: "load_data (Inr \<lparr>columns = target_columns, rows = r\<rparr>) = Inr \<lparr>columns = target_columns, rows = r\<rparr>" for r
    by (simp add: load_data_def target_columns_def strip_def py_isspace_def)
  have a: "\<exists>r \<in> set null_rows. (\<forall>r' \<in> set null_rows. Year r' \<le> Year r) \<and> (GDP r = None \<or> Pop r = None)"
    by (simp add: null_rows_def)
  have b: "\<not> (\<exists>r \<in> set sample_rows. (\<forall>r' \<in> set sample_rows. Year r' \<le> Year r) \<and> (GDP r = None \<or> Pop r = None))"
    by (simp add: sample_rows_def)
  show ?thesis
    using null_check_stops [OF l [of null_rows], of sample_get] null_check_stops [OF l [of sample_rows], of sample_get] a b
    by simp
qed

subsection \<open>The best country\<close>

lemma idxmax_from_None:
  "idxmax_from i best cs = None \<longleftrightarrow> best = None \<and> (\<forall>c \<in> set cs. c = None)"
  by (induction i best cs rule: idxmax_from.induct) auto

lemma idxmax_from_upper:
  "idxmax_from i best cs = Some (k, m) \<Longrightarrow>
     (\<forall>v. Some v \<in> set cs \<longrightarrow> v \<le> m) \<and> (\<forall>b bv. best = Some (b, bv) \<longrightarrow> bv \<le> m)"
proof (induction i best cs rule: idxmax_from.induct)
  case (1 i best)
  then show ?case by simp
next
  case (2 i best cs)
  then show ?case by simp
next
  case (3 i v cs)
  from 3(2) have "idxmax_from (Suc i) (Some (i, v)) cs = Some (k, m)" by simp
  from 3(1)[OF this] show ?case by auto
next
  case (4 i b bv v cs)
  let ?best = "if bv < v then Some (i, v) else Some (b, bv)"
  from 4(2) have "idxmax_from (Suc i) ?best cs = Some (k, m)" by simp
  from 4(1)[OF this]
  have cs: "\<forall>w. Some w \<in> set cs \<longrightarrow> w \<le> m" and b: "\<forall>c cv. ?best = Some (c, cv) \<longrightarrow> cv \<le> m"
    by blast+
  from b have "v \<le> m \<and> bv \<le> m" by (cases "bv < v") auto
  with cs show ?case by auto
qed

lemma idxmax_from_first:
  "idxmax_from i best cs = Some (k, m) \<Longrightarrow>
     best = Some (k, m) \<or>
     (\<exists>n < length cs. k = i + n \<and> cs ! n = Some m \<and>
      (\<forall>j < n. \<forall>v. cs ! j = Some v \<longrightarrow> v < m) \<and>
      (\<forall>b bv. best = Some (b, bv) \<longrightarrow> bv < m))"
proof (induction i best cs rule: idxmax_from.induct)
  case (1 i best)
  then show ?case by simp
next
  case (2 i best cs)
  from 2(2) have "idxmax_from (Suc i) best cs = Some (k, m)" by simp
  from 2(1)[OF this] show ?case
  proof (elim disjE exE conjE)
    assume "best = Some (k, m)" then show ?thesis by simp
  next
    fix n assume n: "n < length cs" "k = Suc i + n" "cs ! n = Some m"
      "\<forall>j<n. \<forall>v. cs ! j = Some v \<longrightarrow> v < m" "\<forall>b bv. best = Some (b, bv) \<longrightarrow> bv < m"
    have "\<forall>j<Suc n. \<forall>v. (None # cs) ! j = Some v \<longrightarrow> v < m"
      using n(4) by (simp add: All_less_Suc2)
    with n show ?thesis by (intro disjI2 exI[of _ "Suc n"]) simp
  qed
next
  case (3 i v cs)
  from 3(2) have "idxmax_from (Suc i) (Some (i, v)) cs = Some (k, m)" by simp
  from 3(1)[OF this] show ?case
  proof (elim disjE exE conjE)
    assume "Some (i, v) = Some (k, m)"
    then show ?thesis by (intro disjI2 exI[of _ 0]) simp
  next
    fix n assume n: "n < length cs" "k = Suc i + n" "cs ! n = Some m"
      "\<forall>j<n. \<forall>w. cs ! j = Some w \<longrightarrow> w < m" "\<forall>b bv. Some (i, v) = Some (b, bv) \<longrightarrow> bv < m"
    have "\<forall>j<Suc n. \<forall>w. (Some v # cs) ! j = Some w \<longrightarrow> w < m"
      using n(4,5) by (simp add: All_less_Suc2)
    with n show ?thesis by (intro disjI2 exI[of _ "Suc n"]) simp
  qed
next
  case (4 i b bv v cs)
  let ?best = "if bv < v then Some (i, v) else Some (b, bv)"
  from 4(2) have "idxmax_from (Suc i) ?best cs = Some (k, m)" by simp
  from 4(1)[OF this] show ?case
  proof (elim disjE exE conjE)
    assume eq: "?best = Some (k, m)"
    show ?thesis
    proof (cases "bv < v")
      case True
      with eq have "k = i" "m = v" by simp_all
      with True show ?thesis by (intro disjI2 exI[of _ 0]) simp
    next
      case False
      with eq show ?thesis by simp
    qed
  next
    fix n assume n: "n < length cs" "k = Suc i + n" "cs ! n = Some m"
      "\<forall>j<n. \<forall>w. cs ! j = Some w \<longrightarrow> w < m" "\<forall>c cv. ?best = Some (c, cv) \<longrightarrow> cv < m"
    from n(5) have bd: "v < m" "bv < m" by (auto split: if_splits)
    have "\<forall>j<Suc n. \<forall>w. (Some v # cs) ! j = Some w \<longrightarrow> w < m"
      using n(4) bd by (simp add: All_less_Suc2)
    with n bd show ?thesis by (intro disjI2 exI[of _ "Suc n"]) simp
  qed
qed

lemma idxmax_Inr:
  assumes "idxmax cs = Inr k"
  shows "k < length cs \<and>
         (\<exists>m. cs ! k = Some m \<and> (\<forall>v. Some v \<in> set cs \<longrightarrow> v \<le> m) \<and>
              (\<forall>j < k. \<forall>v. cs ! j = Some v \<longrightarrow> v < m))"
proof -
  from assms obtain m where r: "idxmax_from 0 None cs = Some (k, m)"
    by (auto simp: idxmax_def split: option.splits)
  from idxmax_from_first [OF r] idxmax_from_upper [OF r] show ?thesis by auto
qed

lemma idxmax_Inl:
  "idxmax cs = Inl e \<longleftrightarrow> e = ValueError \<and> (\<forall>c \<in> set cs. c = None)"
  using idxmax_from_None [of 0 None cs]
  by (auto simp: idxmax_def split: option.splits)

lemma idxmax_total:
  assumes "cs \<noteq> []" "\<forall>c \<in> set cs. c \<noteq> None"
  shows "\<exists>k. idxmax cs = Inr k"
proof (cases "idxmax cs")
  case (Inl e)
  with assms show ?thesis by (cases cs) (auto simp: idxmax_Inl)
next
  case (Inr k)
  then show ?thesis by blast
qed

lemma values0_filter:
  "find P xs = Some r \<Longrightarrow> values0 (map f (filter P xs)) = Inr (f r)"
  by (induction xs) (auto simp: values0_def split: if_splits)

lemma ranker_Inr:
  assumes i: "idxmax (map Score d) = Inr i"
    and r: "find (\<lambda>r. Country r = Country (d ! i)) d = Some r"
  shows "ranker d = Inr \<lparr>pais_ideal = Country (d ! i), pib_pais = GDP r, pop_pais = Pop r\<rparr>"
  using i values0_filter [OF r, of GDP] values0_filter [OF r, of Pop]
  by (simp add: ranker_def Let_def)

lemma Score_dup_rows: "map Score dup_rows = [Some 1, Some 9]"
  by (simp add: dup_rows_def dup_table_def add_score_def cell_add_def cell_mul_def pesos_gdp pesos_pop)

lemma Score_two_rows: "map Score two_rows = [Some 5, Some 7]"
  by (simp add: two_rows_def add_score_def cell_add_def cell_mul_def pesos_gdp pesos_pop)

lemma two_rows_nth1:
  "two_rows ! Suc 0 = \<lparr>Country = ''Peru'', Year = 2024, GDP = Some 7, Pop = Some 7, Score = Some 7\<rparr>"
  by (simp add: two_rows_def add_score_def cell_add_def cell_mul_def pesos_gdp pesos_pop)

lemma two_rows_nth0:
  "two_rows ! 0 = \<lparr>Country = ''Chile'', Year = 2024, GDP = Some 5, Pop = Some 5, Score = Some 5\<rparr>"
  by (simp add: two_rows_def add_score_def cell_add_def cell_mul_def pesos_gdp pesos_pop)

text \<open>
  The values \<open>pib_pais\<close> and \<open>pop_pais\<close> are looked up by country label, not by
  position. In a snapshot where the label of the best line also stands on an earlier
  line, the values shown are those of the earlier line: here the second line has the
  greatest score and the growth values 9 and 9, and the text shows 1 and 1.
\<close>

theorem ranker_same_row_counterexample:
  "scoring dup_table = Inr dup_rows \<and>
   dup_rows \<noteq> [] \<and> idxmax (map Score dup_rows) = Inr 1 \<and>
   ranker dup_rows = Inr \<lparr>pais_ideal = ''Brazil'', pib_pais = Some 1, pop_pais = Some 1\<rparr> \<and>
   GDP (dup_rows ! 1) = Some 9 \<and> Pop (dup_rows ! 1) = Some 9"
proof -
  have i: "idxmax (map Score dup_rows) = Inr 1"
    by (simp add: Score_dup_rows idxmax_def)
  have "ranker dup_rows = Inr \<lparr>pais_ideal = ''Brazil'', pib_pais = Some 1, pop_pais = Some 1\<rparr>"
    unfolding ranker_def i by (simp add: dup_rows_def dup_table_def add_score_def values0_def)
  moreover have "scoring dup_table = Inr dup_rows"
  proof -
    have "dados_recentes dup_table = dup_table"
      by (simp add: dados_recentes_def ano_mais_recente_def dup_table_def)
    moreover have "\<not> isnull_any dup_table"
      by (simp add: isnull_any_def dup_table_def)
    ultimately show ?thesis by (simp add: scoring_def Let_def dup_rows_def)
  qed
  ultimately show ?thesis using i by (simp add: dup_rows_def dup_table_def add_score_def)
qed

text \<open>
  Claim C2, amended. For a snapshot that is not empty and has no null score, the
  ranker selects the first line, in order, that attains the greatest score, and reports
  the country label of that line together with the GDP growth and population growth of
  the first line of the snapshot that carries this label. These are the values of the
  selected line itself whenever no earlier line carries its label, in particular when
  the labels of the snapshot are distinct. For the scores 5 and 7 the second line is
  selected.
\<close>

theorem ranker_first_max:
  assumes ne: "d \<noteq> []" and nonull: "\<forall>s \<in> set d. Score s \<noteq> None"
  shows "\<exists>i m r. idxmax (map Score d) = Inr i \<and> i < length d \<and>
           Score (d ! i) = Some m \<and>
           (\<forall>j < length d. \<forall>v. Score (d ! j) = Some v \<longrightarrow> v \<le> m) \<and>
           (\<forall>j < i. \<forall>v. Score (d ! j) = Some v \<longrightarrow> v < m) \<and>
           find (\<lambda>r. Country r = Country (d ! i)) d = Some r \<and>
           ranker d = Inr \<lparr>pais_ideal = Country (d ! i), pib_pais = GDP r, pop_pais = Pop r\<rparr> \<and>
           ((\<forall>j < i. Country (d ! j) \<noteq> Country (d ! i)) \<longrightarrow> r = d ! i) \<and>
           (map Score d = [Some 5, Some 7] \<longrightarrow> i = 1)"
proof -
  from ne nonull obtain i where i: "idxmax (map Score d) = Inr i"
    using idxmax_total [of "map Score d"] by auto
  from idxmax_Inr [OF i] obtain m where
    len: "i < length d" and m: "Score (d ! i) = Some m"
    and ub: "\<forall>v. Some v \<in> set (map Score d) \<longrightarrow> v \<le> m"
    and first: "\<forall>j < i. \<forall>v. map Score d ! j = Some v \<longrightarrow> v < m"
    by auto
  have ub': "\<forall>j < length d. \<forall>v. Score (d ! j) = Some v \<longrightarrow> v \<le> m"
  proof (intro allI impI)
    fix j v assume "j < length d" "Score (d ! j) = Some v"
    then have "Some v \<in> set (map Score d)" by (force simp: in_set_conv_nth)
    with ub show "v \<le> m" by blast
  qed
  have first': "\<forall>j < i. \<forall>v. Score (d ! j) = Some v \<longrightarrow> v < m"
    using first len by simp
  let ?P = "\<lambda>r. Country r = Country (d ! i)"
  from len have "\<exists>x \<in> set d. ?P x" by auto
  then obtain r where r: "find ?P d = Some r"
    by (cases "find ?P d") (auto simp: find_None_iff)
  have same: "r = d ! i" if "\<forall>j < i. Country (d ! j) \<noteq> Country (d ! i)"
  proof -
    from r obtain k where k: "k < length d" "?P (d ! k)" "r = d ! k" "\<forall>j < k. \<not> ?P (d ! j)"
      unfolding find_Some_iff by blast
    from k(2) that have "\<not> k < i" by blast
    moreover from k(4) have "\<not> i < k" by blast
    ultimately show ?thesis using k(3) by simp
  qed
  have ex: "i = 1" if "map Score d = [Some 5, Some 7]"
    using i that by (simp add: idxmax_def)
  have "idxmax (map Score d) = Inr i \<and> i < length d \<and>
           Score (d ! i) = Some m \<and>
           (\<forall>j < length d. \<forall>v. Score (d ! j) = Some v \<longrightarrow> v \<le> m) \<and>
           (\<forall>j < i. \<forall>v. Score (d ! j) = Some v \<longrightarrow> v < m) \<and>
           find (\<lambda>r. Country r = Country (d ! i)) d = Some r \<and>
           ranker d = Inr \<lparr>pais_ideal = Country (d ! i), pib_pais = GDP r, pop_pais = Pop r\<rparr> \<and>
           ((\<forall>j < i. Country (d ! j) \<noteq> Country (d ! i)) \<longrightarrow> r = d ! i) \<and>
           (map Score d = [Some 5, Some 7] \<longrightarrow> i = 1)"
    using i len m ub' first' r ranker_Inr [OF i r] same ex by (intro conjI impI) assumption+
  then show ?thesis by (intro exI)
qed

theorem ranker_first_max_witness:
  "two_rows \<noteq> [] \<and> list_all (\<lambda>s. Score s \<noteq> None) two_rows \<and>
   map Score two_rows = [Some 5, Some 7] \<and>
   idxmax (map Score two_rows) = Inr 1 \<and>
   ranker two_rows = Inr \<lparr>pais_ideal = ''Peru'', pib_pais = Some 7, pop_pais = Some 7\<rparr>"
proof -
  have ne: "two_rows \<noteq> []" by (simp add: two_rows_def)
  have nonull: "\<forall>s \<in> set two_rows. Score s \<noteq> None"
    by (simp add: two_rows_def add_score_def cell_add_def cell_mul_def)
  from ranker_first_max [OF ne nonull] obtain i m r where
    i: "idxmax (map Score two_rows) = Inr i"
    and r: "ranker two_rows = Inr \<lparr>pais_ideal = Country (two_rows ! i), pib_pais = GDP r, pop_pais = Pop r\<rparr>"
    and same: "(\<forall>j < i. Country (two_rows ! j) \<noteq> Country (two_rows ! i)) \<longrightarrow> r = two_rows ! i"
    and ex: "map Score two_rows = [Some 5, Some 7] \<longrightarrow> i = 1"
    by (elim exE conjE)
  from ex Score_two_rows have i1: "i = Suc 0" by simp
  have "\<forall>j < Suc 0. Country (two_rows ! j) \<noteq> Country (two_rows ! Suc 0)"
    by (simp add: two_rows_nth0 two_rows_nth1)
  with same have r1: "r = two_rows ! Suc 0" unfolding i1 by blast
  have rk: "ranker two_rows = Inr \<lparr>pais_ideal = ''Peru'', pib_pais = Some 7, pop_pais = Some 7\<rparr>"
    using r unfolding i1 r1 two_rows_nth1 by simp
  from i have ix: "idxmax (map Score two_rows) = Inr 1" unfolding i1 by simp
  from nonull have nn: "list_all (\<lambda>s. Score s \<noteq> None) two_rows"
    by (simp add: list_all_iff)
  from ne nn Score_two_rows ix rk show ?thesis by (intro conjI)
qed

subsection \<open>Validation of the country names\<close>

lemma invalid_countries_misspelt:
  "invalid_countries sample_get (map add_score misspelt_rows) = [''Brasil'', ''Brasil'']"
  by (simp add: invalid_countries_def sample_get_def misspelt_rows_def add_score_def
      strip_def py_isspace_def)

lemma count_list_filter_map:
  "count_list (filter P (map f xs)) n = (if P n then length (filter (\<lambda>x. f x = n) xs) else 0)"
  by (induction xs) auto

lemma idxmax_misspelt: "idxmax (map Score (map add_score misspelt_rows)) = Inr 2"
  by (simp add: misspelt_rows_def add_score_def cell_add_def cell_mul_def pesos_gdp pesos_pop
      idxmax_def)

lemma ranker_misspelt:
  "ranker (map add_score misspelt_rows) =
     Inr \<lparr>pais_ideal = ''Brasil'', pib_pais = Some 1, pop_pais = Some 1\<rparr>"
  unfolding ranker_def idxmax_misspelt
  by (simp add: misspelt_rows_def add_score_def values0_def)

lemma scoring_misspelt: "scoring misspelt_rows = Inr (map add_score misspelt_rows)"
proof -
  have "dados_recentes misspelt_rows = misspelt_rows"
    by (simp add: dados_recentes_def ano_mais_recente_def misspelt_rows_def)
  moreover have "\<not> isnull_any misspelt_rows"
    by (simp add: isnull_any_def misspelt_rows_def)
  ultimately show ?thesis by (simp add: scoring_def Let_def)
qed

lemma load_data_target:
  "load_data (Inr \<lparr>columns = target_columns, rows = r\<rparr>) = Inr \<lparr>columns = target_columns, rows = r\<rparr>"
  by (simp add: load_data_def target_columns_def strip_def py_isspace_def)

text \<open>
  The list \<open>invalid_countries\<close> is built line by line and is not reduced to distinct
  names: a name that is not recognized and stands on two lines of the snapshot is
  listed twice.
\<close>

theorem invalid_once_per_name_counterexample:
  "scoring misspelt_rows = Inr (map add_score misspelt_rows) \<and>
   invalid_countries sample_get (map add_score misspelt_rows) = [''Brasil'', ''Brasil''] \<and>
   count_list (invalid_countries sample_get (map add_score misspelt_rows)) ''Brasil'' = 2 \<and>
   \<not> distinct (invalid_countries sample_get (map add_score misspelt_rows))"
  by (simp add: invalid_countries_misspelt scoring_misspelt)

text \<open>
  Claim C8, amended. The validation warns and the page goes on: a line whose trimmed
  country label is found by the lookup adds no entry to the list, and each line whose
  trimmed label is not found adds exactly one entry, so a name that is not recognized
  is listed once for every line of the snapshot that carries it. The warning is shown
  exactly when some line is not recognized, and the page is produced with it.
\<close>

theorem invalid_once_per_row:
  "count_list (invalid_countries get d) name =
     (if get name = None then length (filter (\<lambda>r. strip (Country r) = name) d) else 0) \<and>
   (get name \<noteq> None \<longrightarrow> name \<notin> set (invalid_countries get d)) \<and>
   validate get d =
     (if \<exists>r \<in> set d. get (strip (Country r)) = None
      then [Unrecognized (invalid_countries get d)] else []) \<and>
   (ranker d = Inr a \<longrightarrow> load_data csv = Inr f \<longrightarrow> scoring (rows f) = Inr d \<longrightarrow>
      page get csv = Inr \<lparr>texto = a, snapshot = d, warnings = validate get d\<rparr>)"
proof -
  have c: "count_list (invalid_countries get d) name =
     (if get name = None then length (filter (\<lambda>r. strip (Country r) = name) d) else 0)"
    by (simp add: invalid_countries_def count_list_filter_map)
  have n: "name \<notin> set (invalid_countries get d)" if "get name \<noteq> None"
    using that by (auto simp: invalid_countries_def)
  have e: "invalid_countries get d \<noteq> [] \<longleftrightarrow> (\<exists>r \<in> set d. get (strip (Country r)) = None)"
    by (auto simp: invalid_countries_def filter_empty_conv)
  have v: "validate get d =
     (if \<exists>r \<in> set d. get (strip (Country r)) = None
      then [Unrecognized (invalid_countries get d)] else [])"
    unfolding validate_def Let_def e by simp
  have p: "page get csv = Inr \<lparr>texto = a, snapshot = d, warnings = validate get d\<rparr>"
    if "ranker d = Inr a" "load_data csv = Inr f" "scoring (rows f) = Inr d"
    using that by (simp add: page_def)
  from c n v p show ?thesis by blast
qed


theorem invalid_once_per_row_witness:
  "count_list (invalid_countries sample_get (map add_score misspelt_rows)) ''Brasil'' = 2 \<and>
   ''Chile'' \<notin> set (invalid_countries sample_get (map add_score misspelt_rows)) \<and>
   page sample_get (Inr \<lparr>columns = target_columns, rows = misspelt_rows\<rparr>) =
     Inr \<lparr>texto = \<lparr>pais_ideal = ''Brasil'', pib_pais = Some 1, pop_pais = Some 1\<rparr>,
          snapshot = map add_score misspelt_rows,
          warnings = [Unrecognized [''Brasil'', ''Brasil'']]\<rparr>"
proof -
  let ?d = "map add_score misspelt_rows"
  let ?f = "\<lparr>columns = target_columns, rows = misspelt_rows\<rparr>"
  have s: "scoring (rows ?f) = Inr ?d" using scoring_misspelt by simp
  have b: "sample_get ''Brasil'' = None" by (simp add: sample_get_def)
  have c: "sample_get ''Chile'' \<noteq> None" by (simp add: sample_get_def)
  have ex: "\<exists>r \<in> set ?d. sample_get (strip (Country r)) = None"
    by (simp add: misspelt_rows_def add_score_def strip_def py_isspace_def sample_get_def)
  have n: "length (filter (\<lambda>r. strip (Country r) = ''Brasil'') ?d) = 2"
    by (simp add: misspelt_rows_def add_score_def strip_def py_isspace_def)
  from invalid_once_per_row [of sample_get ?d "''Brasil''" _ "Inr ?f" ?f] b n
  have 1: "count_list (invalid_countries sample_get ?d) ''Brasil'' = 2" by simp
  from invalid_once_per_row [of sample_get ?d "''Chile''" _ "Inr ?f" ?f] c
  have 2: "''Chile'' \<notin> set (invalid_countries sample_get ?d)" by blast
  from invalid_once_per_row [of sample_get ?d "''Chile''"
      "\<lparr>pais_ideal = ''Brasil'', pib_pais = Some 1, pop_pais = Some 1\<rparr>" "Inr ?f" ?f]
    ranker_misspelt load_data_target [of misspelt_rows] s ex
  have 3: "page sample_get (Inr ?f) =
     Inr \<lparr>texto = \<lparr>pais_ideal = ''Brasil'', pib_pais = Some 1, pop_pais = Some 1\<rparr>,
          snapshot = ?d, warnings = [Unrecognized (invalid_countries sample_get ?d)]\<rparr>"
    by simp
  from 1 2 3 show ?thesis by (simp add: invalid_countries_misspelt)
qed

subsection \<open>The currency converter\<close>

lemma try_rate_dict:
  assumes "d ''rates'' = Some (PDict rates)"
  shows "try_rate (PDict d) src dst =
     (let taxa_origem = (case rates src of None \<Rightarrow> PNone | Some v \<Rightarrow> v);
          taxa_destino = (case rates dst of None \<Rightarrow> PNone | Some v \<Rightarrow> v)
      in if truthy taxa_origem \<and> truthy taxa_destino
         then truediv taxa_destino taxa_origem else Inr 1)"
  using assms by (simp add: try_rate_def rates_in_def getitem_rates_def dict_get_def Let_def)

lemma truediv_truthy: "truthy v \<Longrightarrow> truediv w v \<noteq> Inl ZeroDivisionError"
  by (cases v; cases w) (auto simp: truediv_def number_def truthy_def)

lemma truediv_self: "truthy v \<Longrightarrow> truediv v v = Inr 1 \<or> truediv v v = Inl TypeError"
  by (cases v) (auto simp: truediv_def number_def truthy_def)

lemma try_rate_no_zero_division: "try_rate data src dst \<noteq> Inl ZeroDivisionError"
proof (cases data)
  case (PDict d)
  show ?thesis
  proof (cases "d ''rates''")
    case None
    with PDict show ?thesis by (simp add: try_rate_def rates_in_def)
  next
    case (Some rates)
    show ?thesis
    proof (cases rates)
      case (PDict m)
      with Some \<open>data = PDict d\<close> show ?thesis
        using try_rate_dict [of d m src dst] by (simp add: Let_def truediv_truthy)
    qed (use Some \<open>data = PDict d\<close> in
          \<open>simp_all add: try_rate_def rates_in_def getitem_rates_def dict_get_def\<close>)
  qed
qed (simp_all add: try_rate_def rates_in_def getitem_rates_def)

lemma try_rate_same: "try_rate data m m = Inr r \<Longrightarrow> r = 1"
proof (cases data)
  case (PDict d)
  assume r: "try_rate data m m = Inr r"
  show ?thesis
  proof (cases "d ''rates''")
    case None
    with PDict r show ?thesis by (simp add: try_rate_def rates_in_def)
  next
    case (Some rates)
    show ?thesis
    proof (cases rates)
      case (PDict rm)
      let ?v = "case rm m of None \<Rightarrow> PNone | Some v \<Rightarrow> v"
      from r Some PDict \<open>data = PDict d\<close>
      have "(if truthy ?v then truediv ?v ?v else Inr 1) = Inr r"
        using try_rate_dict [of d rm m m] by (simp add: Let_def)
      then show ?thesis using truediv_self [of ?v] by (auto split: if_splits)
    qed (use r Some \<open>data = PDict d\<close> in
          \<open>simp_all add: try_rate_def rates_in_def getitem_rates_def dict_get_def\<close>)
  qed
qed (simp_all add: try_rate_def rates_in_def getitem_rates_def split: if_splits)

lemma get_exchange_rate_shown:
  "snd (get_exchange_rate response src dst) \<noteq> [] \<Longrightarrow> fst (get_exchange_rate response src dst) = 1"
  by (auto simp: get_exchange_rate_def split: sum.splits)

lemma sample_body_rates: "sample_body ''rates'' = Some (PDict sample_rates)"
  by (simp add: sample_body_def)

lemma try_rate_not_1:
  assumes "try_rate data moeda_origem moeda_destino = Inr taxa" "taxa \<noteq> 1"
  shows "\<exists>body rates taxa_origem taxa_destino.
           data = PDict body \<and> body ''rates'' = Some (PDict rates) \<and>
           rates moeda_origem = Some taxa_origem \<and> rates moeda_destino = Some taxa_destino \<and>
           truthy taxa_origem \<and> truthy taxa_destino"
proof (cases data)
  case (PDict body)
  show ?thesis
  proof (cases "body ''rates''")
    case None
    with PDict assms show ?thesis by (simp add: try_rate_def rates_in_def)
  next
    case (Some v)
    show ?thesis
    proof (cases v)
      case (PDict rates)
      let ?o = "case rates moeda_origem of None \<Rightarrow> PNone | Some v \<Rightarrow> v"
      let ?d = "case rates moeda_destino of None \<Rightarrow> PNone | Some v \<Rightarrow> v"
      from assms Some PDict \<open>data = PDict body\<close>
      have t: "truthy ?o \<and> truthy ?d"
        using try_rate_dict [of body rates moeda_origem moeda_destino]
        by (auto simp: Let_def split: if_splits)
      then obtain taxa_origem taxa_destino where
        "rates moeda_origem = Some taxa_origem" "rates moeda_destino = Some taxa_destino"
        by (cases "rates moeda_origem"; cases "rates moeda_destino") (auto simp: truthy_def)
      with t Some PDict \<open>data = PDict body\<close> show ?thesis by auto
    qed (use assms Some \<open>data = PDict body\<close> in
          \<open>simp_all add: try_rate_def rates_in_def getitem_rates_def dict_get_def\<close>)
  qed
qed (use assms in \<open>simp_all add: try_rate_def rates_in_def getitem_rates_def split: if_splits\<close>)

lemma get_exchange_rate_not_1:
  assumes "fst (get_exchange_rate response moeda_origem moeda_destino) \<noteq> 1"
  shows "\<exists>body rates taxa_origem taxa_destino.
           response = Inr (PDict body) \<and> body ''rates'' = Some (PDict rates) \<and>
           rates moeda_origem = Some taxa_origem \<and> rates moeda_destino = Some taxa_destino \<and>
           truthy taxa_origem \<and> truthy taxa_destino"
proof (cases response)
  case (Inl e)
  with assms show ?thesis by (simp add: get_exchange_rate_def)
next
  case (Inr data)
  show ?thesis
  proof (cases "try_rate data moeda_origem moeda_destino")
    case (Inl e)
    with Inr assms show ?thesis by (simp add: get_exchange_rate_def)
  next
    case r: (Inr taxa)
    with Inr assms have "taxa \<noteq> 1" by (simp add: get_exchange_rate_def)
    from try_rate_not_1 [OF r this] Inr show ?thesis by simp
  qed
qed

text \<open>
  Claim C5. When the decoded body has a \<open>rates\<close> dictionary that holds non-zero
  numbers \<open>a\<close> for the source code and \<open>b\<close> for the destination code, the rate returned
  is \<open>b / a\<close>, no message is shown, and the converted value is the amount times
  \<open>b / a\<close>. This holds for any two codes, so for the three supported ones, and for any
  amount, so for the non-negative ones. Numbers are exact reals: with the rates USD 1,
  EUR 0.9 and BRL 5, converting 100 from BRL to EUR gives 18.
\<close>

theorem converter_rate:
  assumes "d ''rates'' = Some (PDict rates)"
    and "rates moeda_origem = Some (PNum a)" and "rates moeda_destino = Some (PNum b)"
    and "a \<noteq> 0" and "b \<noteq> 0"
  shows "get_exchange_rate (Inr (PDict d)) moeda_origem moeda_destino = (b / a, []) \<and>
         converter (Inr (PDict d)) moeda_origem moeda_destino valor = (valor * (b / a), [])"
proof -
  have "try_rate (PDict d) moeda_origem moeda_destino = Inr (b / a)"
    using assms try_rate_dict [of d rates moeda_origem moeda_destino]
    by (simp add: truthy_def truediv_def number_def)
  then show ?thesis by (simp add: get_exchange_rate_def converter_def)
qed

theorem converter_rate_witness:
  "''BRL'' \<in> set moedas \<and> ''EUR'' \<in> set moedas \<and>
   sample_rates ''BRL'' = Some (PNum 5) \<and> sample_rates ''EUR'' = Some (PNum 0.9) \<and>
   get_exchange_rate (Inr (PDict sample_body)) ''BRL'' ''EUR'' = (0.9 / 5, []) \<and>
   converter (Inr (PDict sample_body)) ''BRL'' ''EUR'' 100 = (18, [])"
proof -
  have o: "sample_rates ''BRL'' = Some (PNum 5)" by (simp add: sample_rates_def)
  have d: "sample_rates ''EUR'' = Some (PNum 0.9)" by (simp add: sample_rates_def)
  have m: "''BRL'' \<in> set moedas \<and> ''EUR'' \<in> set moedas" by (simp add: moedas_def)
  have nz: "(5::real) \<noteq> 0" "(0.9::real) \<noteq> 0" by simp_all
  from converter_rate [where d = sample_body and rates = sample_rates and moeda_origem = "''BRL''"
      and moeda_destino = "''EUR''" and a = 5 and b = "0.9" and valor = 100]
    sample_body_rates o d nz m
  show ?thesis by simp
qed

text \<open>
  Claim C6. A failed lookup returns the rate 1 and never raises: when
  \<open>requests.get\<close> or \<open>response.json\<close> raises, the rate is 1 and the error is shown in
  the sidebar; when the body is a dictionary without \<open>rates\<close>, or its \<open>rates\<close>
  dictionary lacks either code, the rate is 1 and nothing is shown; and whenever an
  error is shown at all, whatever was caught, the rate is 1. A rate other than 1 is
  returned only for a body that is a dictionary whose \<open>rates\<close> dictionary holds a
  truthy value for both codes. With the rate 1 the converted value is the amount.
\<close>

theorem rate_failure_fallback:
  "get_exchange_rate (Inl e) moeda_origem moeda_destino = (1, [ExchangeRateError (FetchError e)]) \<and>
   (d ''rates'' = None \<longrightarrow>
      get_exchange_rate (Inr (PDict d)) moeda_origem moeda_destino = (1, [])) \<and>
   (d ''rates'' = Some (PDict rates) \<longrightarrow> rates moeda_origem = None \<or> rates moeda_destino = None \<longrightarrow>
      get_exchange_rate (Inr (PDict d)) moeda_origem moeda_destino = (1, [])) \<and>
   (snd (get_exchange_rate response moeda_origem moeda_destino) \<noteq> [] \<longrightarrow>
      fst (get_exchange_rate response moeda_origem moeda_destino) = 1) \<and>
   (fst (get_exchange_rate response moeda_origem moeda_destino) \<noteq> 1 \<longrightarrow>
      (\<exists>body rs taxa_origem taxa_destino.
         response = Inr (PDict body) \<and> body ''rates'' = Some (PDict rs) \<and>
         rs moeda_origem = Some taxa_origem \<and> rs moeda_destino = Some taxa_destino \<and>
         truthy taxa_origem \<and> truthy taxa_destino)) \<and>
   (fst (get_exchange_rate response moeda_origem moeda_destino) = 1 \<longrightarrow>
      fst (converter response moeda_origem moeda_destino valor) = valor)"
proof -
  have 1: "get_exchange_rate (Inl e) moeda_origem moeda_destino = (1, [ExchangeRateError (FetchError e)])"
    by (simp add: get_exchange_rate_def)
  have 2: "get_exchange_rate (Inr (PDict d)) moeda_origem moeda_destino = (1, [])"
    if "d ''rates'' = None"
    using that by (simp add: get_exchange_rate_def try_rate_def rates_in_def)
  have 3: "get_exchange_rate (Inr (PDict d)) moeda_origem moeda_destino = (1, [])"
    if "d ''rates'' = Some (PDict rates)" "rates moeda_origem = None \<or> rates moeda_destino = None"
  proof -
    from that(2) have "try_rate (PDict d) moeda_origem moeda_destino = Inr 1"
      using that(1) try_rate_dict [of d rates moeda_origem moeda_destino]
      by (auto simp: Let_def truthy_def)
    then show ?thesis by (simp add: get_exchange_rate_def)
  qed
  have 5: "fst (converter response moeda_origem moeda_destino valor) = valor"
    if "fst (get_exchange_rate response moeda_origem moeda_destino) = 1"
    using that by (cases "get_exchange_rate response moeda_origem moeda_destino")
      (simp add: converter_def)
  have 4: "fst (get_exchange_rate response moeda_origem moeda_destino) \<noteq> 1 \<longrightarrow>
      (\<exists>body rs taxa_origem taxa_destino.
         response = Inr (PDict body) \<and> body ''rates'' = Some (PDict rs) \<and>
         rs moeda_origem = Some taxa_origem \<and> rs moeda_destino = Some taxa_destino \<and>
         truthy taxa_origem \<and> truthy taxa_destino)"
    using get_exchange_rate_not_1 [of response moeda_origem moeda_destino] by blast
  from 1 2 3 5 get_exchange_rate_shown [of response moeda_origem moeda_destino]
  have "get_exchange_rate (Inl e) moeda_origem moeda_destino = (1, [ExchangeRateError (FetchError e)]) \<and>
   (d ''rates'' = None \<longrightarrow>
      get_exchange_rate (Inr (PDict d)) moeda_origem moeda_destino = (1, [])) \<and>
   (d ''rates'' = Some (PDict rates) \<longrightarrow> rates moeda_origem = None \<or> rates moeda_destino = None \<longrightarrow>
      get_exchange_rate (Inr (PDict d)) moeda_origem moeda_destino = (1, [])) \<and>
   (snd (get_exchange_rate response moeda_origem moeda_destino) \<noteq> [] \<longrightarrow>
      fst (get_exchange_rate response moeda_origem moeda_destino) = 1) \<and>
   (fst (get_exchange_rate response moeda_origem moeda_destino) = 1 \<longrightarrow>
      fst (converter response moeda_origem moeda_destino valor) = valor)"
    by blast
  with 4 show ?thesis by simp
qed

theorem rate_failure_fallback_witness:
  "converter (Inl ''ConnectionError'') ''BRL'' ''EUR'' 100 =
     (100, [ExchangeRateError (FetchError ''ConnectionError'')]) \<and>
   get_exchange_rate (Inr (PDict no_rates_body)) ''BRL'' ''EUR'' = (1, []) \<and>
   get_exchange_rate (Inr (PDict sample_body)) ''BRL'' ''JPY'' = (1, [])"
proof -
  have n: "no_rates_body ''rates'' = None" by (simp add: no_rates_body_def)
  have j: "sample_rates ''BRL'' = None \<or> sample_rates ''JPY'' = None"
    by (simp add: sample_rates_def)
  from rate_failure_fallback [of "''ConnectionError''" "''BRL''" "''EUR''" no_rates_body
      sample_rates "Inl ''ConnectionError''" 100]
  have a: "get_exchange_rate (Inl ''ConnectionError'') ''BRL'' ''EUR'' =
             (1, [ExchangeRateError (FetchError ''ConnectionError'')])"
    and c: "fst (converter (Inl ''ConnectionError'') ''BRL'' ''EUR'' 100) = 100"
    and b: "get_exchange_rate (Inr (PDict no_rates_body)) ''BRL'' ''EUR'' = (1, [])"
    using n by simp_all
  from a c have a': "converter (Inl ''ConnectionError'') ''BRL'' ''EUR'' 100 =
     (100, [ExchangeRateError (FetchError ''ConnectionError'')])"
    by (simp add: converter_def)
  from rate_failure_fallback [of _ "''BRL''" "''JPY''" sample_body sample_rates] sample_body_rates j
  have "get_exchange_rate (Inr (PDict sample_body)) ''BRL'' ''JPY'' = (1, [])" by blast
  with a' b show ?thesis by blast
qed

text \<open>
  Claim C9. Converting a currency to itself is the identity: the rate returned for the
  same source and destination code is 1 and the converted value is the amount. When the
  body holds a non-zero number for the code, this 1 is the quotient of the number by
  itself and no message is shown.
\<close>

theorem same_currency_identity:
  "fst (get_exchange_rate response m m) = 1 \<and>
   fst (converter response m m valor) = valor \<and>
   (d ''rates'' = Some (PDict rates) \<longrightarrow> rates m = Some (PNum a) \<longrightarrow> a \<noteq> 0 \<longrightarrow>
      get_exchange_rate (Inr (PDict d)) m m = (1, []) \<and>
      converter (Inr (PDict d)) m m valor = (valor, []))"
proof -
  have 1: "fst (get_exchange_rate response m m) = 1"
  proof (cases response)
    case (Inl e)
    then show ?thesis by (simp add: get_exchange_rate_def)
  next
    case (Inr data)
    then show ?thesis
      using try_rate_same [of data m]
      by (cases "try_rate data m m") (simp_all add: get_exchange_rate_def)
  qed
  then have 2: "fst (converter response m m valor) = valor"
    by (cases "get_exchange_rate response m m") (simp add: converter_def)
  have 3: "get_exchange_rate (Inr (PDict d)) m m = (1, []) \<and>
      converter (Inr (PDict d)) m m valor = (valor, [])"
    if "d ''rates'' = Some (PDict rates)" "rates m = Some (PNum a)" "a \<noteq> 0"
  proof -
    from that have "try_rate (PDict d) m m = Inr 1"
      using try_rate_dict [of d rates m m] by (simp add: truthy_def truediv_def number_def)
    then show ?thesis by (simp add: get_exchange_rate_def converter_def)
  qed
  from 1 2 3 show ?thesis by blast
qed

theorem same_currency_identity_witness:
  "sample_rates ''EUR'' = Some (PNum 0.9) \<and>
   get_exchange_rate (Inr (PDict sample_body)) ''EUR'' ''EUR'' = (1, []) \<and>
   converter (Inr (PDict sample_body)) ''EUR'' ''EUR'' 250 = (250, [])"
proof -
  have e: "sample_rates ''EUR'' = Some (PNum 0.9)" by (simp add: sample_rates_def)
  have nz: "(0.9::real) \<noteq> 0" by simp
  from same_currency_identity [of "Inr (PDict sample_body)" "''EUR''" 250 sample_body sample_rates "0.9"]
    sample_body_rates e nz
  have "get_exchange_rate (Inr (PDict sample_body)) ''EUR'' ''EUR'' = (1, []) \<and>
      converter (Inr (PDict sample_body)) ''EUR'' ''EUR'' 250 = (250, [])" by blast
  with e show ?thesis by blast
qed

text \<open>
  Claim C10. The function never divides by zero: no \<open>ZeroDivisionError\<close> is ever
  caught and shown, because the division is reached only with a truthy divisor, and a
  truthy divisor does not raise it. When the rate of the source or of the destination
  is 0 or absent, the function returns the fallback 1 and shows nothing.
\<close>

theorem no_division_by_zero:
  "ExchangeRateError ZeroDivisionError \<notin> set (snd (get_exchange_rate response moeda_origem moeda_destino)) \<and>
   (truthy taxa_origem \<longrightarrow> truediv taxa_destino taxa_origem \<noteq> Inl ZeroDivisionError) \<and>
   (d ''rates'' = Some (PDict rates) \<longrightarrow>
      rates moeda_origem = None \<or> rates moeda_origem = Some (PNum 0) \<or>
      rates moeda_destino = None \<or> rates moeda_destino = Some (PNum 0) \<longrightarrow>
      get_exchange_rate (Inr (PDict d)) moeda_origem moeda_destino = (1, []))"
proof -
  have 1: "ExchangeRateError ZeroDivisionError \<notin>
      set (snd (get_exchange_rate response moeda_origem moeda_destino))"
  proof (cases response)
    case (Inl e)
    then show ?thesis by (simp add: get_exchange_rate_def)
  next
    case (Inr data)
    then show ?thesis
      using try_rate_no_zero_division [of data moeda_origem moeda_destino]
      by (cases "try_rate data moeda_origem moeda_destino") (simp_all add: get_exchange_rate_def)
  qed
  have 3: "get_exchange_rate (Inr (PDict d)) moeda_origem moeda_destino = (1, [])"
    if r: "d ''rates'' = Some (PDict rates)"
      and z: "rates moeda_origem = None \<or> rates moeda_origem = Some (PNum 0) \<or>
              rates moeda_destino = None \<or> rates moeda_destino = Some (PNum 0)"
  proof -
    from z have "try_rate (PDict d) moeda_origem moeda_destino = Inr 1"
      using r try_rate_dict [of d rates moeda_origem moeda_destino]
      by (auto simp: Let_def truthy_def)
    then show ?thesis by (simp add: get_exchange_rate_def)
  qed
  from 1 3 truediv_truthy [of taxa_origem taxa_destino] show ?thesis by blast
qed

theorem no_division_by_zero_witness:
  "truthy (PNum 5) \<and> truediv (PNum 0.9) (PNum 5) = Inr (0.9 / 5) \<and>
   get_exchange_rate (Inr (PDict zero_body)) ''BRL'' ''USD'' = (1, []) \<and>
   get_exchange_rate (Inr (PDict zero_body)) ''USD'' ''EUR'' = (1, [])"
proof -
  let ?rates = "[''USD'' \<mapsto> PNum 1, ''BRL'' \<mapsto> PNum 0]"
  have r: "zero_body ''rates'' = Some (PDict ?rates)" by (simp add: zero_body_def)
  have t: "truthy (PNum 5)" by (simp add: truthy_def)
  have dv: "truediv (PNum 0.9) (PNum 5) = Inr (0.9 / 5)" by (simp add: truediv_def number_def)
  have z1: "?rates ''BRL'' = None \<or> ?rates ''BRL'' = Some (PNum 0) \<or>
            ?rates ''USD'' = None \<or> ?rates ''USD'' = Some (PNum 0)" by simp
  have z2: "?rates ''USD'' = None \<or> ?rates ''USD'' = Some (PNum 0) \<or>
            ?rates ''EUR'' = None \<or> ?rates ''EUR'' = Some (PNum 0)" by simp
  from no_division_by_zero [where d = zero_body and rates = ?rates and moeda_origem = "''BRL''"
      and moeda_destino = "''USD''" and taxa_origem = "PNum 5" and taxa_destino = "PNum 0.9"] r z1
  have a: "get_exchange_rate (Inr (PDict zero_body)) ''BRL'' ''USD'' = (1, [])" by blast
  from no_division_by_zero [where d = zero_body and rates = ?rates and moeda_origem = "''USD''"
      and moeda_destino = "''EUR''"] r z2
  have b: "get_exchange_rate (Inr (PDict zero_body)) ''USD'' ''EUR'' = (1, [])" by blast
  from t dv a b show ?thesis by blast
qed

subsection \<open>The forecast\<close>

lemma those_map_Some: "those (map Some xs) = Some xs"
  by (induction xs) simp_all

lemma sum_list_affine:
  "sum_list (map (\<lambda>x. a * x + b) X) = a * sum_list X + b * real (length X)"
  by (induction X) (simp_all add: algebra_simps)

lemma mean_affine:
  "X \<noteq> [] \<Longrightarrow> mean (map (\<lambda>x. a * x + b) X) = a * mean X + b"
  by (simp add: mean_def sum_list_affine add_divide_distrib)

lemma sum_list_map2_same:
  "sum_list (map2 f X (map g X)) = sum_list (map (\<lambda>x. f x (g x)) X)"
  by (induction X) simp_all

lemma sxx_pos:
  assumes "x1 \<in> set X" "x2 \<in> set X" "x1 \<noteq> x2"
  shows "sum_list (map (\<lambda>x. (x - mx) * (x - mx)) X) \<noteq> (0::real)"
proof
  assume z: "sum_list (map (\<lambda>x. (x - mx) * (x - mx)) X) = 0"
  have "\<forall>v \<in> set (map (\<lambda>x. (x - mx) * (x - mx)) X). v = 0"
    using z by (subst (asm) sum_list_nonneg_eq_0_iff) auto
  then have eq: "\<forall>x \<in> set X. x = mx" by simp
  from eq assms(1) have "x1 = mx" by (rule bspec)
  moreover from eq assms(2) have "x2 = mx" by (rule bspec)
  ultimately show False using assms(3) by simp
qed

lemma fit_affine:
  assumes ne: "x1 \<in> set X" "x2 \<in> set X" "x1 \<noteq> x2"
  shows "fit X (map (\<lambda>x. Some (a * x + b)) X) = Inr \<lparr>coef = a, intercept = b\<rparr>"
proof -
  let ?ys = "map (\<lambda>x. a * x + b) X"
  let ?mx = "mean X"
  let ?sxx = "sum_list (map (\<lambda>x. (x - ?mx) * (x - ?mx)) X)"
  from ne have X: "X \<noteq> []" by auto
  have y: "map (\<lambda>x. Some (a * x + b)) X = map Some ?ys" by simp
  have th: "those (map (\<lambda>x. Some (a * x + b)) X) = Some ?ys"
    unfolding y by (rule those_map_Some)
  have my: "mean ?ys = a * ?mx + b" using X by (rule mean_affine)
  have "sum_list (map2 (\<lambda>x v. (x - ?mx) * (v - (a * ?mx + b))) X ?ys) =
        sum_list (map (\<lambda>x. a * ((x - ?mx) * (x - ?mx))) X)"
    unfolding sum_list_map2_same by (simp add: algebra_simps)
  also have "\<dots> = a * ?sxx" by (simp add: sum_list_const_mult)
  finally have sxy: "sum_list (map2 (\<lambda>x v. (x - ?mx) * (v - (a * ?mx + b))) X ?ys) = a * ?sxx" .
  have nz: "?sxx \<noteq> 0" using ne by (rule sxx_pos)
  show ?thesis
    unfolding fit_def th using X nz by (simp add: Let_def sxy my)
qed

lemma future_years_eq: "future_years = [2025, 2026, 2027, 2028, 2029, 2030]"
  by (simp add: future_years_def upto.simps)

text \<open>
  Claim C7. When the GDP growth of every line of the table is the same affine function
  \<open>a * Year + b\<close> of its year and the training part of the split holds two lines with
  different years, the forecast is the six pairs for the years 2025 to 2030, each
  predicted value is \<open>a * year + b\<close>, and the predicted values follow the sign of the
  slope: they do not decrease when \<open>a\<close> is not negative, do not increase when \<open>a\<close> is
  not positive, and strictly so when \<open>a\<close> is not zero. Arithmetic is exact, so the
  regression tolerance of the claim is an equality here.
\<close>

theorem forecast_affine:
  assumes split: "split imoveis = Inr (train, test)"
    and sub: "set train \<subseteq> set imoveis"
    and affine: "\<forall>r \<in> set imoveis. GDP r = Some (a * real_of_int (Year r) + b)"
    and two: "r1 \<in> set train" "r2 \<in> set train" "Year r1 \<noteq> Year r2"
  shows "forecast split imoveis =
           Inr (map (\<lambda>year. (year, a * real_of_int year + b)) [2025, 2026, 2027, 2028, 2029, 2030]) \<and>
         length (map (\<lambda>year. (year, a * real_of_int year + b)) [2025, 2026, 2027, 2028, 2029, 2030]) = 6 \<and>
         (0 \<le> a \<longrightarrow> sorted (map (\<lambda>year. a * real_of_int year + b) [2025, 2026, 2027, 2028, 2029, 2030])) \<and>
         (a \<le> 0 \<longrightarrow> sorted (rev (map (\<lambda>year. a * real_of_int year + b) [2025, 2026, 2027, 2028, 2029, 2030]))) \<and>
         (0 < a \<longrightarrow> sorted_wrt (<) (map (\<lambda>year. a * real_of_int year + b) [2025, 2026, 2027, 2028, 2029, 2030])) \<and>
         (a < 0 \<longrightarrow> sorted_wrt (>) (map (\<lambda>year. a * real_of_int year + b) [2025, 2026, 2027, 2028, 2029, 2030]))"
proof -
  let ?X = "map (\<lambda>r. real_of_int (Year r)) train"
  from sub affine have "map GDP train = map (\<lambda>r. Some (a * real_of_int (Year r) + b)) train"
    by auto
  then have y: "map GDP train = map (\<lambda>x. Some (a * x + b)) ?X"
    by (simp add: comp_def)
  from two have x: "real_of_int (Year r1) \<in> set ?X" "real_of_int (Year r2) \<in> set ?X"
      "real_of_int (Year r1) \<noteq> real_of_int (Year r2)"
    by auto
  have f: "fit ?X (map GDP train) = Inr \<lparr>coef = a, intercept = b\<rparr>"
    unfolding y using x by (rule fit_affine)
  have 1: "forecast split imoveis =
           Inr (map (\<lambda>year. (year, a * real_of_int year + b)) [2025, 2026, 2027, 2028, 2029, 2030])"
    using split f by (simp add: forecast_def predict_def future_years_eq add.commute)
  have 3: "sorted (map (\<lambda>year. a * real_of_int year + b) [2025, 2026, 2027, 2028, 2029, 2030])"
    if "0 \<le> a" using that by simp
  have 4: "sorted (rev (map (\<lambda>year. a * real_of_int year + b) [2025, 2026, 2027, 2028, 2029, 2030]))"
    if "a \<le> 0" using that by simp
  have 5: "sorted_wrt (<) (map (\<lambda>year. a * real_of_int year + b) [2025, 2026, 2027, 2028, 2029, 2030])"
    if "0 < a" using that by simp
  have 6: "sorted_wrt (>) (map (\<lambda>year. a * real_of_int year + b) [2025, 2026, 2027, 2028, 2029, 2030])"
    if "a < 0" using that by simp
  from 1 3 4 5 6 show ?thesis by simp
qed

theorem forecast_affine_witness:
  "sample_split linear_rows = Inr (take 4 linear_rows, drop 4 linear_rows) \<and>
   list_all (\<lambda>r. GDP r = Some (2 * (real_of_int (Year r) - 2000))) linear_rows \<and>
   forecast sample_split linear_rows =
     Inr [(2025, 50), (2026, 52), (2027, 54), (2028, 56), (2029, 58), (2030, 60)]"
proof -
  have s: "sample_split linear_rows = Inr (take 4 linear_rows, drop 4 linear_rows)"
    by (simp add: sample_split_def)
  have sub: "set (take 4 linear_rows) \<subseteq> set linear_rows" by (rule set_take_subset)
  have aff: "\<forall>r \<in> set linear_rows. GDP r = Some (2 * real_of_int (Year r) + (- 4000))"
    by (simp add: linear_rows_def)
  have r1: "\<lparr>Country = ''Chile'', Year = 2018, GDP = Some 36, Pop = Some 1\<rparr> \<in> set (take 4 linear_rows)"
    by (simp add: linear_rows_def)
  have r2: "\<lparr>Country = ''Chile'', Year = 2019, GDP = Some 38, Pop = Some 1\<rparr> \<in> set (take 4 linear_rows)"
    by (simp add: linear_rows_def)
  have ne: "Year \<lparr>Country = ''Chile'', Year = 2018, GDP = Some 36, Pop = Some 1\<rparr> \<noteq>
            Year \<lparr>Country = ''Chile'', Year = 2019, GDP = Some 38, Pop = Some 1\<rparr>"
    by simp
  have aff': "list_all (\<lambda>r. GDP r = Some (2 * (real_of_int (Year r) - 2000))) linear_rows"
    by (simp add: linear_rows_def)
  from forecast_affine [where split = sample_split and imoveis = linear_rows
      and train = "take 4 linear_rows" and test = "drop 4 linear_rows" and a = 2 and b = "- 4000"
      and ?r1.0 = "\<lparr>Country = ''Chile'', Year = 2018, GDP = Some 36, Pop = Some 1\<rparr>"
      and ?r2.0 = "\<lparr>Country = ''Chile'', Year = 2019, GDP = Some 38, Pop = Some 1\<rparr>",
      OF s sub aff r1 r2 ne]
  have "forecast sample_split linear_rows =
     Inr [(2025, 50), (2026, 52), (2027, 54), (2028, 56), (2029, 58), (2030, 60)]"
    by simp
  with s aff' show ?thesis by blast
qed

end
